theory Spec2Isabelle
  imports Main "HOL-Library.Monad_Syntax"
begin

section \<open>TaskFlow backend: the task resource and its CRUD contract\<close>

text \<open>
  A shallow embedding of \<^verbatim>\<open>backend/src/app.py\<close>. Every endpoint is a function that takes
  the database session and returns either an error or its result together with the
  session after the call. The values the endpoints read from their environment
  (\<^verbatim>\<open>uuid.uuid4()\<close>, \<^verbatim>\<open>datetime.utcnow()\<close>) are arguments.

  A Python \<^verbatim>\<open>str\<close> is a list of code points; the model covers the code points below 256,
  one \<open>char\<close> each, so \<open>length\<close> is Python's \<^verbatim>\<open>len\<close>. A \<^verbatim>\<open>datetime\<close> is a point on
  the integer time line.
\<close>

subsection \<open>Values\<close>

type_synonym datetime = int

text \<open>
  Modelled from the spec: the enumerations \<^verbatim>\<open>TaskStatus\<close> and \<^verbatim>\<open>TaskPriority\<close> are imported
  from \<^verbatim>\<open>models.py\<close>, which is not among the sources. Section 3 of the specification
  gives their members: status is one of \<^verbatim>\<open>todo\<close>, \<^verbatim>\<open>in_progress\<close>, \<^verbatim>\<open>done\<close> and priority is one
  of \<^verbatim>\<open>low\<close>, \<^verbatim>\<open>medium\<close>, \<^verbatim>\<open>high\<close>. \<^verbatim>\<open>app.py\<close> names the members \<^verbatim>\<open>TODO\<close> and \<^verbatim>\<open>MEDIUM\<close>.
\<close>

datatype TaskStatus = TODO | IN_PROGRESS | DONE

datatype TaskPriority = LOW | MEDIUM | HIGH

text \<open>Modelled from the spec: the member of \<^verbatim>\<open>TaskStatus\<close> with a given string value.\<close>

definition TaskStatus_of_value :: "string \<Rightarrow> TaskStatus option" where
  "TaskStatus_of_value s =
     (if s = ''todo'' then Some TODO
      else if s = ''in_progress'' then Some IN_PROGRESS
      else if s = ''done'' then Some DONE
      else None)"

text \<open>Modelled from the spec: the member of \<^verbatim>\<open>TaskPriority\<close> with a given string value.\<close>

definition TaskPriority_of_value :: "string \<Rightarrow> TaskPriority option" where
  "TaskPriority_of_value s =
     (if s = ''low'' then Some LOW
      else if s = ''medium'' then Some MEDIUM
      else if s = ''high'' then Some HIGH
      else None)"

text \<open>
  A key of a JSON object or of a Python dict is either missing or present with a value;
  the value may be \<^verbatim>\<open>null\<close>/\<^verbatim>\<open>None\<close>, which is \<open>Given None\<close>.
\<close>

datatype 'a field = Unset | Given 'a

text \<open>\<^verbatim>\<open>d.get(key)\<close>: \<^verbatim>\<open>None\<close> for a missing key.\<close>

fun dict_get :: "'a option field \<Rightarrow> 'a option" where
  "dict_get Unset = None"
| "dict_get (Given v) = v"

text \<open>\<^verbatim>\<open>d.get(key, default)\<close>.\<close>

fun dict_get_default :: "'a field \<Rightarrow> 'a \<Rightarrow> 'a" where
  "dict_get_default Unset d = d"
| "dict_get_default (Given v) d = v"

text \<open>
  The errors an endpoint can end with. \<open>HTTPException\<close> is raised by the handlers with a
  status code and a detail; \<open>RequestValidationError\<close> is the framework's answer to a body
  that does not fit the declared model; the last two are exceptions of the database
  session, which no handler but \<^verbatim>\<open>health_check\<close> catches.
\<close>

datatype error =
    HTTPException nat string
  | RequestValidationError
  | OperationalError string
  | IntegrityError string

fun status_code :: "error \<Rightarrow> nat" where
  "status_code (HTTPException code detail) = code"
| "status_code RequestValidationError = 422"
| "status_code (OperationalError msg) = 500"
| "status_code (IntegrityError msg) = 500"

text \<open>\<^verbatim>\<open>str(e)\<close> of a caught exception.\<close>

fun str_of_error :: "error \<Rightarrow> string" where
  "str_of_error (HTTPException code detail) = detail"
| "str_of_error RequestValidationError = ''validation error''"
| "str_of_error (OperationalError msg) = msg"
| "str_of_error (IntegrityError msg) = msg"

subsection \<open>Strings\<close>

text \<open>
  \<^verbatim>\<open>str.isspace\<close> on one code point below 256: the characters tab to carriage return,
  the four separators 28 to 31, the space, NEL (133) and the no-break space (160).
\<close>

definition isspace :: "char \<Rightarrow> bool" where
  "isspace c \<longleftrightarrow> (of_char c :: nat) \<in> set [9, 10, 11, 12, 13, 28, 29, 30, 31, 32, 133, 160]"

text \<open>\<^verbatim>\<open>s.strip()\<close>: leading and trailing white space removed.\<close>

definition strip :: "string \<Rightarrow> string" where
  "strip s = rev (dropWhile isspace (rev (dropWhile isspace s)))"

subsection \<open>Request and response models\<close>

text \<open>
  The JSON object of a request body, before validation. The string fields arrive as JSON
  strings or \<^verbatim>\<open>null\<close>; the due date is carried as the time it denotes.
\<close>

record RequestBody =
  title :: "string option field"
  description :: "string option field"
  status :: "string option field"
  priority :: "string option field"
  assignee :: "string option field"
  due_date :: "datetime option field"

text \<open>\<^verbatim>\<open>class TaskCreate(BaseModel)\<close>: a validated body of \<^verbatim>\<open>POST /tasks\<close>.\<close>

record TaskCreate =
  title :: string
  description :: "string option"
  status :: TaskStatus
  priority :: TaskPriority
  assignee :: "string option"
  due_date :: "datetime option"

text \<open>
  \<^verbatim>\<open>class TaskUpdate(BaseModel)\<close>: a validated body of \<^verbatim>\<open>PUT /tasks/{task_id}\<close>. Every field
  is optional and the model remembers which fields were set: \<open>Unset\<close> fields are the
  ones \<^verbatim>\<open>model_dump(exclude_unset=True)\<close> leaves out.
\<close>

record TaskUpdate =
  title :: "string option field"
  description :: "string option field"
  status :: "TaskStatus option field"
  priority :: "TaskPriority option field"
  assignee :: "string option field"
  due_date :: "datetime option field"

text \<open>
  Modelled from the spec: \<^verbatim>\<open>TaskModel\<close>, the mapped class of \<^verbatim>\<open>models.py\<close> (not among the
  sources), with the attributes \<^verbatim>\<open>create_task\<close> passes to its constructor. An attribute of
  the Python object can hold \<^verbatim>\<open>None\<close>; \<^verbatim>\<open>update_task\<close> assigns whatever the body supplied.
  The field \<open>id'\<close> is the attribute \<^verbatim>\<open>id\<close>.
\<close>

record TaskModel =
  id' :: string
  title :: "string option"
  description :: "string option"
  status :: "TaskStatus option"
  priority :: "TaskPriority option"
  assignee :: "string option"
  due_date :: "datetime option"
  created_at :: datetime
  updated_at :: datetime

subsection \<open>Validation of request bodies\<close>

text \<open>\<^verbatim>\<open>str = Field(..., min_length, max_length)\<close>: required, not null, length within bounds.\<close>

fun required_str :: "nat \<Rightarrow> nat \<Rightarrow> string option field \<Rightarrow> string option" where
  "required_str min_length max_length (Given (Some s)) =
     (if min_length \<le> length s \<and> length s \<le> max_length then Some s else None)"
| "required_str min_length max_length (Given None) = None"
| "required_str min_length max_length Unset = None"

text \<open>
  \<^verbatim>\<open>Optional[str] = Field(None, min_length, max_length)\<close>: a missing key and \<^verbatim>\<open>null\<close> are
  accepted, a string must have a length within the bounds. The result is \<open>None\<close> when
  validation fails.
\<close>

fun optional_str :: "nat \<Rightarrow> nat \<Rightarrow> string option field \<Rightarrow> string option field option" where
  "optional_str min_length max_length Unset = Some Unset"
| "optional_str min_length max_length (Given None) = Some (Given None)"
| "optional_str min_length max_length (Given (Some s)) =
     (if min_length \<le> length s \<and> length s \<le> max_length then Some (Given (Some s)) else None)"

text \<open>An enumeration field with a default: \<^verbatim>\<open>null\<close> and non-members are refused.\<close>

fun enum_with_default :: "(string \<Rightarrow> 'a option) \<Rightarrow> 'a \<Rightarrow> string option field \<Rightarrow> 'a option" where
  "enum_with_default of_value d Unset = Some d"
| "enum_with_default of_value d (Given None) = None"
| "enum_with_default of_value d (Given (Some s)) = of_value s"

text \<open>\<^verbatim>\<open>Optional[Enum] = None\<close>: a missing key and \<^verbatim>\<open>null\<close> are accepted, non-members refused.\<close>

fun optional_enum :: "(string \<Rightarrow> 'a option) \<Rightarrow> string option field \<Rightarrow> 'a option field option" where
  "optional_enum of_value Unset = Some Unset"
| "optional_enum of_value (Given None) = Some (Given None)"
| "optional_enum of_value (Given (Some s)) =
     (case of_value s of None \<Rightarrow> None | Some v \<Rightarrow> Some (Given (Some v)))"

text \<open>The fields of \<^verbatim>\<open>TaskCreate\<close> with their \<^verbatim>\<open>Field\<close> constraints; \<open>None\<close> when one fails.\<close>

definition parse_TaskCreate :: "RequestBody \<Rightarrow> TaskCreate option" where
  "parse_TaskCreate body = do {
     t \<leftarrow> required_str 1 200 (RequestBody.title body);
     d \<leftarrow> optional_str 0 1000 (RequestBody.description body);
     s \<leftarrow> enum_with_default TaskStatus_of_value TODO (RequestBody.status body);
     p \<leftarrow> enum_with_default TaskPriority_of_value MEDIUM (RequestBody.priority body);
     a \<leftarrow> optional_str 0 100 (RequestBody.assignee body);
     Some \<lparr>TaskCreate.title = t, description = dict_get d, status = s, priority = p,
           assignee = dict_get a, due_date = dict_get (RequestBody.due_date body)\<rparr>
   }"

text \<open>The fields of \<^verbatim>\<open>TaskUpdate\<close> with their \<^verbatim>\<open>Field\<close> constraints; \<open>None\<close> when one fails.\<close>

definition parse_TaskUpdate :: "RequestBody \<Rightarrow> TaskUpdate option" where
  "parse_TaskUpdate body = do {
     t \<leftarrow> optional_str 1 200 (RequestBody.title body);
     d \<leftarrow> optional_str 0 1000 (RequestBody.description body);
     s \<leftarrow> optional_enum TaskStatus_of_value (RequestBody.status body);
     p \<leftarrow> optional_enum TaskPriority_of_value (RequestBody.priority body);
     a \<leftarrow> optional_str 0 100 (RequestBody.assignee body);
     Some \<lparr>TaskUpdate.title = t, description = d, status = s, priority = p,
           assignee = a, due_date = RequestBody.due_date body\<rparr>
   }"

subsection \<open>The database session\<close>

text \<open>
  Modelled from the spec: the session \<^verbatim>\<open>db\<close> comes from \<^verbatim>\<open>get_db\<close> of \<^verbatim>\<open>database.py\<close>, which is
  not among the sources. Section 6 of the specification gives the contract of the record
  store: insert, get by id, query by equality filters, update, delete, count and ping.
  The session holds the rows of the task table in insertion order, and the exception
  every call on it raises while the store cannot be reached, if any.
\<close>

record Session =
  rows :: "TaskModel list"
  fault :: "string option"

text \<open>Modelled from the spec: ping, \<^verbatim>\<open>db.execute(text("SELECT 1"))\<close>.\<close>

definition db_execute :: "string \<Rightarrow> Session \<Rightarrow> error + unit" where
  "db_execute statement db =
     (case fault db of Some msg \<Rightarrow> Inl (OperationalError msg) | None \<Rightarrow> Inr ())"

text \<open>
  Modelled from the spec: query by equality filters, \<^verbatim>\<open>db.query(TaskModel).filter(..).all()\<close>.
  A chain of \<^verbatim>\<open>filter\<close> calls keeps the rows that satisfy every criterion.
\<close>

definition db_query_all :: "(TaskModel \<Rightarrow> bool) list \<Rightarrow> Session \<Rightarrow> error + TaskModel list" where
  "db_query_all criteria db =
     (case fault db of
        Some msg \<Rightarrow> Inl (OperationalError msg)
      | None \<Rightarrow> Inr (filter (\<lambda>r. list_all (\<lambda>c. c r) criteria) (rows db)))"

text \<open>Modelled from the spec: get by id, \<^verbatim>\<open>db.query(TaskModel).filter(..).first()\<close>.\<close>

definition db_query_first :: "(TaskModel \<Rightarrow> bool) list \<Rightarrow> Session \<Rightarrow> error + TaskModel option" where
  "db_query_first criteria db =
     (case db_query_all criteria db of
        Inl e \<Rightarrow> Inl e
      | Inr [] \<Rightarrow> Inr None
      | Inr (r # rs) \<Rightarrow> Inr (Some r))"

text \<open>Modelled from the spec: count, \<^verbatim>\<open>db.query(TaskModel).count()\<close>.\<close>

definition db_count :: "Session \<Rightarrow> error + nat" where
  "db_count db =
     (case fault db of Some msg \<Rightarrow> Inl (OperationalError msg) | None \<Rightarrow> Inr (length (rows db)))"

text \<open>
  Modelled from the spec: the constraints of the task table. Section 3 of the
  specification requires a title, a status and a priority in every task, so the three
  columns refuse \<^verbatim>\<open>NULL\<close> when a row is written back.
\<close>

definition not_null :: "TaskModel \<Rightarrow> bool" where
  "not_null r \<longleftrightarrow> TaskModel.title r \<noteq> None \<and> TaskModel.status r \<noteq> None \<and> TaskModel.priority r \<noteq> None"

text \<open>
  Modelled from the spec: insert, \<^verbatim>\<open>db.add(task); db.commit()\<close>. The new row is stored
  behind the rows that are there.
\<close>

definition db_add :: "TaskModel \<Rightarrow> Session \<Rightarrow> error + Session" where
  "db_add task db =
     (case fault db of
        Some msg \<Rightarrow> Inl (OperationalError msg)
      | None \<Rightarrow> Inr (db\<lparr>rows := rows db @ [task]\<rparr>))"

text \<open>
  Modelled from the spec: update, \<^verbatim>\<open>db.commit()\<close> after the attributes of a loaded row were
  assigned. The row is written back under its primary key.
\<close>

definition db_update :: "TaskModel \<Rightarrow> Session \<Rightarrow> error + Session" where
  "db_update task db =
     (case fault db of
        Some msg \<Rightarrow> Inl (OperationalError msg)
      | None \<Rightarrow>
          if \<not> not_null task then Inl (IntegrityError ''NOT NULL constraint failed'')
          else Inr (db\<lparr>rows := map (\<lambda>r. if id' r = id' task then task else r) (rows db)\<rparr>))"

text \<open>
  Modelled from the spec: delete, \<^verbatim>\<open>db.delete(task); db.commit()\<close>. The row is removed under
  its primary key.
\<close>

definition db_delete :: "TaskModel \<Rightarrow> Session \<Rightarrow> error + Session" where
  "db_delete task db =
     (case fault db of
        Some msg \<Rightarrow> Inl (OperationalError msg)
      | None \<Rightarrow> Inr (db\<lparr>rows := filter (\<lambda>r. id' r \<noteq> id' task) (rows db)\<rparr>))"

subsection \<open>Endpoints\<close>

text \<open>What a handler reads from its environment: the next UUID and the clock.\<close>

record env =
  uuid4 :: string
  utcnow :: datetime

datatype json = JStr string | JInt nat

text \<open>\<^verbatim>\<open>try: body except Exception as e: handler(e)\<close>.\<close>

definition try_except :: "error + 'a \<Rightarrow> (error \<Rightarrow> error + 'a) \<Rightarrow> error + 'a" where
  "try_except body handler = (case body of Inl e \<Rightarrow> handler e | Inr v \<Rightarrow> Inr v)"

text \<open>\<^verbatim>\<open>GET /health\<close>.\<close>

definition health_check :: "Session \<Rightarrow> error + (string \<times> json) list" where
  "health_check db =
     try_except
       (case db_execute ''SELECT 1'' db of
          Inl e \<Rightarrow> Inl e
        | Inr u \<Rightarrow>
            (case db_count db of
               Inl e \<Rightarrow> Inl e
             | Inr tasks_count \<Rightarrow>
                 Inr [(''status'', JStr ''healthy''), (''tasks_count'', JInt tasks_count)]))
       (\<lambda>e. Inr [(''status'', JStr ''unhealthy''), (''database'', JStr (str_of_error e))])"

text \<open>
  \<^verbatim>\<open>GET /tasks\<close>. The three \<^verbatim>\<open>if\<close> tests are Python truth tests: \<^verbatim>\<open>None\<close> is false, a member
  of an enumeration is true, and a string is true unless it is empty. The parameters
  \<open>status'\<close>, \<open>priority'\<close> and \<open>assignee'\<close> are the query parameters of the same names.
\<close>

definition get_tasks ::
  "TaskStatus option \<Rightarrow> TaskPriority option \<Rightarrow> string option \<Rightarrow> Session \<Rightarrow> error + TaskModel list" where
  "get_tasks status' priority' assignee' db =
     (let query = [];
          query = (if status' \<noteq> None then query @ [\<lambda>r. TaskModel.status r = status'] else query);
          query = (if priority' \<noteq> None then query @ [\<lambda>r. TaskModel.priority r = priority'] else query);
          query = (if assignee' \<noteq> None \<and> assignee' \<noteq> Some []
                   then query @ [\<lambda>r. TaskModel.assignee r = assignee'] else query)
      in db_query_all query db)"

text \<open>\<^verbatim>\<open>GET /tasks/{task_id}\<close>.\<close>

definition get_task :: "string \<Rightarrow> Session \<Rightarrow> error + TaskModel" where
  "get_task task_id db =
     (case db_query_first [\<lambda>r. id' r = task_id] db of
        Inl e \<Rightarrow> Inl e
      | Inr None \<Rightarrow> Inl (HTTPException 404 (''Task '' @ task_id @ '' not found''))
      | Inr (Some task) \<Rightarrow> Inr task)"

text \<open>The body of \<^verbatim>\<open>create_task\<close>, entered with a validated \<^verbatim>\<open>TaskCreate\<close>.\<close>

definition create_task :: "env \<Rightarrow> TaskCreate \<Rightarrow> Session \<Rightarrow> error + TaskModel \<times> Session" where
  "create_task e task_data db =
     (if TaskCreate.title task_data = [] \<or> strip (TaskCreate.title task_data) = []
      then Inl (HTTPException 422 ''Title cannot be empty'')
      else
        let now = utcnow e;
            task = \<lparr>id' = uuid4 e,
                    title = Some (TaskCreate.title task_data),
                    description = TaskCreate.description task_data,
                    status = Some (TaskCreate.status task_data),
                    priority = Some (TaskCreate.priority task_data),
                    assignee = TaskCreate.assignee task_data,
                    due_date = TaskCreate.due_date task_data,
                    created_at = now,
                    updated_at = now\<rparr>
        in (case db_add task db of Inl err \<Rightarrow> Inl err | Inr db' \<Rightarrow> Inr (task, db')))"

text \<open>The body of \<^verbatim>\<open>update_task\<close>, entered with a validated \<^verbatim>\<open>TaskUpdate\<close>.\<close>

definition update_task :: "env \<Rightarrow> string \<Rightarrow> TaskUpdate \<Rightarrow> Session \<Rightarrow> error + TaskModel \<times> Session" where
  "update_task e task_id updates db =
     (case db_query_first [\<lambda>r. id' r = task_id] db of
        Inl err \<Rightarrow> Inl err
      | Inr None \<Rightarrow> Inl (HTTPException 404 (''Task '' @ task_id @ '' not found''))
      | Inr (Some task) \<Rightarrow>
          if dict_get (TaskUpdate.title updates) = Some []
          then Inl (HTTPException 422 ''Title cannot be empty'')
          else
            let task = task\<lparr>TaskModel.title := dict_get_default (TaskUpdate.title updates) (TaskModel.title task)\<rparr>;
                task = task\<lparr>TaskModel.description :=
                         dict_get_default (TaskUpdate.description updates) (TaskModel.description task)\<rparr>;
                task = task\<lparr>TaskModel.status := dict_get_default (TaskUpdate.status updates) (TaskModel.status task)\<rparr>;
                task = task\<lparr>TaskModel.priority :=
                         dict_get_default (TaskUpdate.priority updates) (TaskModel.priority task)\<rparr>;
                task = task\<lparr>TaskModel.assignee :=
                         dict_get_default (TaskUpdate.assignee updates) (TaskModel.assignee task)\<rparr>;
                task = task\<lparr>TaskModel.due_date :=
                         dict_get_default (TaskUpdate.due_date updates) (TaskModel.due_date task)\<rparr>;
                task = task\<lparr>updated_at := utcnow e\<rparr>
            in (case db_update task db of Inl err \<Rightarrow> Inl err | Inr db' \<Rightarrow> Inr (task, db')))"

text \<open>\<^verbatim>\<open>DELETE /tasks/{task_id}\<close>; the handler returns \<^verbatim>\<open>None\<close>.\<close>

definition delete_task :: "string \<Rightarrow> Session \<Rightarrow> error + unit \<times> Session" where
  "delete_task task_id db =
     (case db_query_first [\<lambda>r. id' r = task_id] db of
        Inl err \<Rightarrow> Inl err
      | Inr None \<Rightarrow> Inl (HTTPException 404 (''Task '' @ task_id @ '' not found''))
      | Inr (Some task) \<Rightarrow>
          (case db_delete task db of Inl err \<Rightarrow> Inl err | Inr db' \<Rightarrow> Inr ((), db')))"

text \<open>
  \<^verbatim>\<open>POST /tasks\<close> as a client sees it. The parameter \<^verbatim>\<open>task_data: TaskCreate\<close> is built from
  the body before the function is called; a body that does not fit the model is answered
  with status 422 and the function is not entered.
\<close>

definition post_tasks :: "env \<Rightarrow> RequestBody \<Rightarrow> Session \<Rightarrow> error + TaskModel \<times> Session" where
  "post_tasks e body db =
     (case parse_TaskCreate body of
        None \<Rightarrow> Inl RequestValidationError
      | Some task_data \<Rightarrow> create_task e task_data db)"

text \<open>
  \<^verbatim>\<open>PUT /tasks/{task_id}\<close> as a client sees it. The parameter \<^verbatim>\<open>updates: TaskUpdate\<close> is built
  from the body before the function is called, so before the row is looked up.
\<close>

definition put_tasks :: "env \<Rightarrow> string \<Rightarrow> RequestBody \<Rightarrow> Session \<Rightarrow> error + TaskModel \<times> Session" where
  "put_tasks e task_id body db =
     (case parse_TaskUpdate body of
        None \<Rightarrow> Inl RequestValidationError
      | Some updates \<Rightarrow> update_task e task_id updates db)"

subsection \<open>Reachable stores and the words of the specification\<close>

text \<open>
  Modelled from the spec: \<^verbatim>\<open>init_db\<close> of \<^verbatim>\<open>database.py\<close> creates the tables; the store a fresh
  deployment starts from has no task.
\<close>

definition init_db :: Session where
  "init_db = \<lparr>rows = [], fault = None\<rparr>"

text \<open>
  The stores the service can be in, together with the latest reading of the clock: the
  store of a fresh deployment, and every store a successful create, update or delete
  leaves behind. The clock never runs backwards between two requests, and the store
  may become unreachable or reachable again at any moment.
\<close>

inductive reachable :: "Session \<Rightarrow> datetime \<Rightarrow> bool" where
  startup: "reachable init_db clock"
| created: "reachable db clock \<Longrightarrow> clock \<le> utcnow e \<Longrightarrow> post_tasks e body db = Inr (task, db')
            \<Longrightarrow> reachable db' (utcnow e)"
| updated: "reachable db clock \<Longrightarrow> clock \<le> utcnow e \<Longrightarrow> put_tasks e task_id body db = Inr (task, db')
            \<Longrightarrow> reachable db' (utcnow e)"
| deleted: "reachable db clock \<Longrightarrow> delete_task task_id db = Inr (u, db') \<Longrightarrow> reachable db' clock"
| outage: "reachable db clock \<Longrightarrow> reachable (db\<lparr>fault := f\<rparr>) clock"

text \<open>
  The List operation in the words of the specification: a record is in the result when
  it equals every supplied filter; a filter that is not supplied constrains nothing.
\<close>

definition satisfies_filters ::
  "TaskStatus option \<Rightarrow> TaskPriority option \<Rightarrow> string option \<Rightarrow> TaskModel \<Rightarrow> bool" where
  "satisfies_filters s p a r \<longleftrightarrow>
     (s = None \<or> TaskModel.status r = s) \<and>
     (p = None \<or> TaskModel.priority r = p) \<and>
     (a = None \<or> TaskModel.assignee r = a)"

text \<open>A title the specification forbids: empty, or white space only.\<close>

definition blank :: "string \<Rightarrow> bool" where
  "blank s \<longleftrightarrow> strip s = []"

text \<open>
  The fields of a create body other than the title pass the constraints \<^verbatim>\<open>TaskCreate\<close>
  declares for them.
\<close>

definition other_fields_valid :: "RequestBody \<Rightarrow> bool" where
  "other_fields_valid body \<longleftrightarrow>
     optional_str 0 1000 (RequestBody.description body) \<noteq> None \<and>
     enum_with_default TaskStatus_of_value TODO (RequestBody.status body) \<noteq> None \<and>
     enum_with_default TaskPriority_of_value MEDIUM (RequestBody.priority body) \<noteq> None \<and>
     optional_str 0 100 (RequestBody.assignee body) \<noteq> None"

text \<open>
  What holds of every stored task at a given reading of the clock: title, status and
  priority are present, the title is not the empty string, and the task was created no
  later than it was last updated, which was no later than now.
\<close>

definition task_invariant :: "datetime \<Rightarrow> TaskModel \<Rightarrow> bool" where
  "task_invariant clock r \<longleftrightarrow>
     not_null r \<and> TaskModel.title r \<noteq> Some [] \<and> created_at r \<le> updated_at r \<and> updated_at r \<le> clock"

definition store_invariant :: "Session \<Rightarrow> datetime \<Rightarrow> bool" where
  "store_invariant db clock \<longleftrightarrow>
     list_all (task_invariant clock) (rows db)"

subsection \<open>Example data\<close>

definition example_env :: env where
  "example_env = \<lparr>uuid4 = ''u1'', utcnow = 10\<rparr>"

definition example_task :: TaskModel where
  "example_task =
     \<lparr>id' = ''u1'', title = Some ''Buy groceries'', description = Some ''Milk, eggs'',
      status = Some TODO, priority = Some MEDIUM, assignee = Some ''bob'', due_date = None,
      created_at = 10, updated_at = 10\<rparr>"

definition example_store :: Session where
  "example_store = \<lparr>rows = [example_task], fault = None\<rparr>"

definition empty_body :: RequestBody where
  "empty_body =
     \<lparr>RequestBody.title = Unset, description = Unset, status = Unset, priority = Unset,
      assignee = Unset, due_date = Unset\<rparr>"

definition example_body :: RequestBody where
  "example_body =
     \<lparr>RequestBody.title = Given (Some ''Buy groceries''), description = Given (Some ''Milk, eggs''),
      status = Unset, priority = Unset, assignee = Given (Some ''bob''), due_date = Unset\<rparr>"

definition later_env :: env where
  "later_env = \<lparr>uuid4 = ''u2'', utcnow = 20\<rparr>"

definition status_done_body :: RequestBody where
  "status_done_body = empty_body\<lparr>RequestBody.status := Given (Some ''done'')\<rparr>"

definition blank_title_body :: RequestBody where
  "blank_title_body = empty_body\<lparr>RequestBody.title := Given (Some ''   '')\<rparr>"

definition done_task :: TaskModel where
  "done_task = example_task\<lparr>TaskModel.status := Some DONE, updated_at := 20\<rparr>"

definition blank_task :: TaskModel where
  "blank_task = example_task\<lparr>TaskModel.title := Some ''   '', updated_at := 20\<rparr>"


definition second_task :: TaskModel where
  "second_task =
     \<lparr>id' = ''u2'', title = Some ''Call bob'', description = None, status = Some TODO,
      priority = Some MEDIUM, assignee = Some '''', due_date = None, created_at = 20, updated_at = 20\<rparr>"


definition two_task_store :: Session where
  "two_task_store = \<lparr>rows = [example_task, second_task], fault = None\<rparr>"

section \<open>Properties\<close>

subsection \<open>Looking a task up by its id\<close>

lemma first_filter_find:
  "(case filter P xs of [] \<Rightarrow> None | r # rs \<Rightarrow> Some r) = find P xs"
  by (induction xs) simp_all

lemma db_query_first_id:
  assumes "fault db = None"
  shows "db_query_first [\<lambda>r. id' r = tid] db = Inr (find (\<lambda>r. id' r = tid) (rows db))"
proof -
  have "db_query_first [\<lambda>r. id' r = tid] db =
        Inr (case filter (\<lambda>r. id' r = tid) (rows db) of [] \<Rightarrow> None | r # rs \<Rightarrow> Some r)"
    using assms by (simp add: db_query_first_def db_query_all_def split: list.splits)
  then show ?thesis by (simp only: first_filter_find)
qed


lemma find_id_None: "find (\<lambda>r. id' r = tid) xs = None \<longleftrightarrow> tid \<notin> id' ` set xs"
  by (induction xs) auto

lemma find_id_Some: "find (\<lambda>r. id' r = tid) xs = Some t \<Longrightarrow> id' t = tid \<and> t \<in> set xs"
  by (induction xs) (auto split: if_splits)

lemma get_task_Inr:
  "get_task tid db = Inr t \<longleftrightarrow> fault db = None \<and> find (\<lambda>r. id' r = tid) (rows db) = Some t"
proof (cases "fault db")
  case None
  then show ?thesis by (simp add: get_task_def db_query_first_id split: option.splits)
next
  case (Some msg)
  then show ?thesis by (simp add: get_task_def db_query_first_def db_query_all_def)
qed

lemma get_task_missing:
  "fault db = None \<Longrightarrow> tid \<notin> id' ` set (rows db) \<Longrightarrow>
   get_task tid db = Inl (HTTPException 404 (''Task '' @ tid @ '' not found''))"
  using find_id_None [of tid "rows db"] by (simp add: get_task_def db_query_first_id)

lemma delete_task_missing:
  "fault db = None \<Longrightarrow> tid \<notin> id' ` set (rows db) \<Longrightarrow>
   delete_task tid db = Inl (HTTPException 404 (''Task '' @ tid @ '' not found''))"
  using find_id_None [of tid "rows db"] by (simp add: delete_task_def db_query_first_id)

lemma delete_task_existing:
  assumes f: "fault db = None" and ex: "tid \<in> id' ` set (rows db)"
  shows "delete_task tid db = Inr ((), db\<lparr>rows := filter (\<lambda>r. id' r \<noteq> tid) (rows db)\<rparr>)"
proof -
  from ex obtain t where t: "find (\<lambda>r. id' r = tid) (rows db) = Some t"
    using find_id_None [of tid "rows db"] by (cases "find (\<lambda>r. id' r = tid) (rows db)") auto
  then have "id' t = tid" using find_id_Some by blast
  with t f show ?thesis
    by (simp add: delete_task_def db_query_first_id db_delete_def)
qed

subsection \<open>White space\<close>

lemma strip_empty: "strip s = [] \<longleftrightarrow> (\<forall>c \<in> set s. isspace c)"
proof
  assume "strip s = []"
  then have "dropWhile isspace (rev (dropWhile isspace s)) = []" by (simp add: strip_def)
  then have a: "\<forall>c \<in> set (dropWhile isspace s). isspace c" by (simp add: dropWhile_eq_Nil_conv)
  show "\<forall>c \<in> set s. isspace c"
  proof (rule ccontr)
    assume "\<not> (\<forall>c \<in> set s. isspace c)"
    then have ne: "dropWhile isspace s \<noteq> []" by (simp add: dropWhile_eq_Nil_conv)
    then have "\<not> isspace (hd (dropWhile isspace s))" by (rule hd_dropWhile)
    moreover have "hd (dropWhile isspace s) \<in> set (dropWhile isspace s)" using ne by simp
    ultimately show False using a by blast
  qed
next
  assume "\<forall>c \<in> set s. isspace c"
  then have "dropWhile isspace s = []" by (simp add: dropWhile_eq_Nil_conv)
  then show "strip s = []" by (simp only: strip_def rev.simps dropWhile.simps)
qed

subsection \<open>Health check\<close>

text \<open>
  Claim C9. The health check answers with status healthy and the number of stored tasks
  when the store can be reached, and with status unhealthy and the text of the store's
  exception when it cannot; in no case does it end with an error.
\<close>

theorem health_check_never_raises:
  "(fault db = None \<longrightarrow>
      health_check db =
        Inr [(''status'', JStr ''healthy''), (''tasks_count'', JInt (length (rows db)))])
   \<and> (\<forall>msg. fault db = Some msg \<longrightarrow>
      health_check db = Inr [(''status'', JStr ''unhealthy''), (''database'', JStr msg)])
   \<and> (\<exists>response. health_check db = Inr response)"
  by (cases "fault db") (simp_all add: health_check_def try_except_def db_execute_def db_count_def)

theorem health_check_never_raises_witness:
  "health_check example_store = Inr [(''status'', JStr ''healthy''), (''tasks_count'', JInt 1)]
   \<and> health_check (example_store\<lparr>fault := Some ''connection refused''\<rparr>) =
       Inr [(''status'', JStr ''unhealthy''), (''database'', JStr ''connection refused'')]"
proof -
  have up: "fault example_store = None" by (simp add: example_store_def)
  have down: "fault (example_store\<lparr>fault := Some ''connection refused''\<rparr>) = Some ''connection refused''"
    by simp
  have "health_check example_store =
          Inr [(''status'', JStr ''healthy''), (''tasks_count'', JInt (length (rows example_store)))]"
    using health_check_never_raises [of example_store] up by blast
  moreover have "health_check (example_store\<lparr>fault := Some ''connection refused''\<rparr>) =
       Inr [(''status'', JStr ''unhealthy''), (''database'', JStr ''connection refused'')]"
    using health_check_never_raises [of "example_store\<lparr>fault := Some ''connection refused''\<rparr>"] down
    by blast
  ultimately show ?thesis by (simp add: example_store_def)
qed

subsection \<open>List\<close>

text \<open>
  Claim C10. A list request whose assignee filter is the empty string gives the result
  of the same request without an assignee filter. On a reachable store that result is
  every stored task that equals the status and priority filters supplied, whatever its
  assignee; with no other filter it is every stored task. So tasks with a non-empty
  assignee are returned, not only those whose assignee is the empty string.
\<close>

theorem get_tasks_empty_assignee:
  "get_tasks s p (Some '''') db = get_tasks s p None db
   \<and> (fault db = None \<longrightarrow>
        get_tasks s p (Some '''') db =
          Inr (filter (\<lambda>r. (s = None \<or> TaskModel.status r = s) \<and> (p = None \<or> TaskModel.priority r = p))
                 (rows db)))
   \<and> (fault db = None \<longrightarrow> get_tasks None None (Some '''') db = Inr (rows db))"
proof (intro conjI impI)
  show "get_tasks s p (Some '''') db = get_tasks s p None db"
    by (simp add: get_tasks_def)
next
  assume "fault db = None"
  then show "get_tasks s p (Some '''') db =
          Inr (filter (\<lambda>r. (s = None \<or> TaskModel.status r = s) \<and> (p = None \<or> TaskModel.priority r = p))
                 (rows db))"
    by (auto simp add: get_tasks_def db_query_all_def intro!: filter_cong)
next
  assume "fault db = None"
  then show "get_tasks None None (Some '''') db = Inr (rows db)"
    by (simp add: get_tasks_def db_query_all_def)
qed

theorem get_tasks_empty_assignee_witness:
  "fault two_task_store = None
   \<and> TaskModel.assignee example_task = Some ''bob''
   \<and> TaskModel.assignee second_task = Some ''''
   \<and> get_tasks None None (Some '''') two_task_store = Inr [example_task, second_task]
   \<and> get_tasks (Some TODO) None (Some '''') two_task_store = Inr [example_task, second_task]
   \<and> get_tasks (Some DONE) None (Some '''') two_task_store = Inr []
   \<and> get_tasks None None (Some '''') two_task_store = get_tasks None None None two_task_store"
proof -
  have up: "fault two_task_store = None" by (simp add: two_task_store_def)
  have a: "TaskModel.assignee example_task = Some ''bob''" "TaskModel.assignee second_task = Some ''''"
    by (simp_all add: example_task_def second_task_def)
  have st: "TaskModel.status example_task = Some TODO" "TaskModel.status second_task = Some TODO"
    by (simp_all add: example_task_def second_task_def)
  have rs: "rows two_task_store = [example_task, second_task]" by (simp add: two_task_store_def)
  have 1: "get_tasks None None (Some '''') two_task_store = Inr [example_task, second_task]"
    using get_tasks_empty_assignee
      [of None None two_task_store, THEN conjunct2, THEN conjunct2, THEN mp, OF up]
    by (simp only: rs)
  have 2: "get_tasks (Some TODO) None (Some '''') two_task_store = Inr [example_task, second_task]"
    using get_tasks_empty_assignee
      [of "Some TODO" None two_task_store, THEN conjunct2, THEN conjunct1, THEN mp, OF up]
    by (simp add: rs st)
  have 3: "get_tasks (Some DONE) None (Some '''') two_task_store = Inr []"
    using get_tasks_empty_assignee
      [of "Some DONE" None two_task_store, THEN conjunct2, THEN conjunct1, THEN mp, OF up]
    by (simp add: rs st)
  have 4: "get_tasks None None (Some '''') two_task_store = get_tasks None None None two_task_store"
    by (rule get_tasks_empty_assignee [of None None two_task_store, THEN conjunct1])
  from up a 1 2 3 4 show ?thesis by blast
qed

text \<open>
  Claim C7, as the code has it. On a reachable store the result of a list request is
  the stored tasks, in stored order, that equal every supplied filter, where an assignee
  filter that is the empty string counts as not supplied. Without filters every task is
  returned, and when no task matches the result is the empty list, not an error.
\<close>

theorem get_tasks_conjunctive:
  assumes "fault db = None"
  shows "get_tasks s p a db =
           Inr (filter (satisfies_filters s p (if a = Some '''' then None else a)) (rows db))
       \<and> get_tasks None None None db = Inr (rows db)
       \<and> ((\<forall>r \<in> set (rows db). \<not> satisfies_filters s p (if a = Some '''' then None else a) r)
            \<longrightarrow> get_tasks s p a db = Inr [])"
proof -
  have 1: "get_tasks s p a db =
           Inr (filter (satisfies_filters s p (if a = Some '''' then None else a)) (rows db))"
    using assms
    by (auto simp add: get_tasks_def db_query_all_def satisfies_filters_def intro!: filter_cong)
  have 2: "get_tasks None None None db = Inr (rows db)"
    using assms by (simp add: get_tasks_def db_query_all_def)
  from 1 2 show ?thesis by simp
qed

theorem get_tasks_conjunctive_witness:
  "fault example_store = None
   \<and> get_tasks (Some TODO) None (Some ''bob'') example_store = Inr [example_task]
   \<and> get_tasks None None None example_store = Inr [example_task]
   \<and> get_tasks (Some DONE) None (Some ''bob'') example_store = Inr []"
proof -
  have up: "fault example_store = None" by (simp add: example_store_def)
  have "get_tasks (Some TODO) None (Some ''bob'') example_store = Inr [example_task]"
    using get_tasks_conjunctive [OF up, of "Some TODO" None "Some ''bob''"]
    by (simp add: satisfies_filters_def example_store_def example_task_def)
  moreover have "get_tasks None None None example_store = Inr [example_task]"
    using get_tasks_conjunctive [OF up, of None None None]
    by (simp add: satisfies_filters_def example_store_def)
  moreover have "get_tasks (Some DONE) None (Some ''bob'') example_store = Inr []"
    using get_tasks_conjunctive [OF up, of "Some DONE" None "Some ''bob''"]
    by (simp add: satisfies_filters_def example_store_def example_task_def)
  ultimately show ?thesis using up by simp
qed

text \<open>
  Claim C7, as the specification words it, fails: with the assignee filter supplied as
  the empty string the result holds a task whose assignee is bob, which does not equal
  the supplied filter.
\<close>

theorem get_tasks_conjunctive_counterexample:
  "get_tasks None None (Some '''') example_store = Inr [example_task]
   \<and> \<not> satisfies_filters None None (Some '''') example_task
   \<and> filter (satisfies_filters None None (Some '''')) (rows example_store) = []"
  by (simp add: get_tasks_def db_query_all_def satisfies_filters_def example_store_def example_task_def)

subsection \<open>Delete\<close>

text \<open>
  Claim C8. On a reachable store, deleting an id that exists succeeds with no content,
  removes the task with that id and leaves every other task, and a get of the same id
  afterwards fails with status 404; deleting an id that does not exist fails with
  status 404.
\<close>

theorem delete_task_then_get:
  assumes f: "fault db = None"
  shows "(tid \<in> id' ` set (rows db) \<longrightarrow>
            (\<exists>db'. delete_task tid db = Inr ((), db')
               \<and> rows db' = filter (\<lambda>r. id' r \<noteq> tid) (rows db)
               \<and> get_task tid db' = Inl (HTTPException 404 (''Task '' @ tid @ '' not found''))))
       \<and> (tid \<notin> id' ` set (rows db) \<longrightarrow>
            delete_task tid db = Inl (HTTPException 404 (''Task '' @ tid @ '' not found'')))"
proof (intro conjI impI)
  assume ex: "tid \<in> id' ` set (rows db)"
  let ?db' = "db\<lparr>rows := filter (\<lambda>r. id' r \<noteq> tid) (rows db)\<rparr>"
  have 1: "delete_task tid db = Inr ((), ?db')" using f ex by (rule delete_task_existing)
  have 2: "get_task tid ?db' = Inl (HTTPException 404 (''Task '' @ tid @ '' not found''))"
    by (rule get_task_missing) (use f in auto)
  from 1 2 show "\<exists>db'. delete_task tid db = Inr ((), db')
               \<and> rows db' = filter (\<lambda>r. id' r \<noteq> tid) (rows db)
               \<and> get_task tid db' = Inl (HTTPException 404 (''Task '' @ tid @ '' not found''))"
    by (intro exI [of _ ?db']) simp
next
  assume "tid \<notin> id' ` set (rows db)"
  with f show "delete_task tid db = Inl (HTTPException 404 (''Task '' @ tid @ '' not found''))"
    by (rule delete_task_missing)
qed

theorem delete_task_then_get_witness:
  "fault example_store = None
   \<and> ''u1'' \<in> id' ` set (rows example_store)
   \<and> (\<exists>db'. delete_task ''u1'' example_store = Inr ((), db') \<and> rows db' = []
          \<and> get_task ''u1'' db' = Inl (HTTPException 404 ''Task u1 not found''))
   \<and> ''u2'' \<notin> id' ` set (rows example_store)
   \<and> delete_task ''u2'' example_store = Inl (HTTPException 404 ''Task u2 not found'')"
proof -
  have up: "fault example_store = None" by (simp add: example_store_def)
  have ex: "''u1'' \<in> id' ` set (rows example_store)"
    by (simp add: example_store_def example_task_def)
  have nex: "''u2'' \<notin> id' ` set (rows example_store)"
    by (simp add: example_store_def example_task_def)
  have "\<exists>db'. delete_task ''u1'' example_store = Inr ((), db')
          \<and> rows db' = filter (\<lambda>r. id' r \<noteq> ''u1'') (rows example_store)
          \<and> get_task ''u1'' db' = Inl (HTTPException 404 (''Task '' @ ''u1'' @ '' not found''))"
    using delete_task_then_get [OF up, of "''u1''"] ex by blast
  then have a: "\<exists>db'. delete_task ''u1'' example_store = Inr ((), db') \<and> rows db' = []
          \<and> get_task ''u1'' db' = Inl (HTTPException 404 ''Task u1 not found'')"
    by (simp add: example_store_def example_task_def)
  have b: "delete_task ''u2'' example_store = Inl (HTTPException 404 ''Task u2 not found'')"
    using delete_task_then_get [OF up, of "''u2''"] nex by simp
  from up ex nex a b show ?thesis by blast
qed

subsection \<open>Create\<close>

lemma parse_TaskCreate_Some:
  assumes "parse_TaskCreate body = Some td"
  shows "required_str 1 200 (RequestBody.title body) = Some (TaskCreate.title td)
       \<and> enum_with_default TaskStatus_of_value TODO (RequestBody.status body) = Some (TaskCreate.status td)
       \<and> enum_with_default TaskPriority_of_value MEDIUM (RequestBody.priority body) = Some (TaskCreate.priority td)"
  using assms by (auto simp add: parse_TaskCreate_def bind_eq_Some_conv)

lemma parse_TaskCreate_title_None:
  "required_str 1 200 (RequestBody.title body) = None \<Longrightarrow> parse_TaskCreate body = None"
  by (simp add: parse_TaskCreate_def)

lemma parse_TaskCreate_valid:
  assumes "required_str 1 200 (RequestBody.title body) = Some s" and "other_fields_valid body"
  shows "\<exists>td. parse_TaskCreate body = Some td \<and> TaskCreate.title td = s"
  using assms by (auto simp add: parse_TaskCreate_def other_fields_valid_def)

lemma create_task_Inr:
  assumes "create_task e td db = Inr (task, db')"
  shows "task = \<lparr>id' = uuid4 e, title = Some (TaskCreate.title td),
                 description = TaskCreate.description td,
                 status = Some (TaskCreate.status td), priority = Some (TaskCreate.priority td),
                 assignee = TaskCreate.assignee td, due_date = TaskCreate.due_date td,
                 created_at = utcnow e, updated_at = utcnow e\<rparr>
       \<and> fault db = None \<and> rows db' = rows db @ [task] \<and> fault db' = None
       \<and> \<not> blank (TaskCreate.title td)"
  using assms
  by (auto simp add: create_task_def db_add_def Let_def blank_def split: if_splits option.splits sum.splits)

lemma create_task_blank:
  "blank (TaskCreate.title td) \<Longrightarrow> create_task e td db = Inl (HTTPException 422 ''Title cannot be empty'')"
  by (simp add: create_task_def blank_def)

lemma create_task_succeeds:
  assumes "\<not> blank (TaskCreate.title td)" and "fault db = None"
  shows "\<exists>task db'. create_task e td db = Inr (task, db') \<and> TaskModel.title task = Some (TaskCreate.title td)"
proof -
  from assms(1) have "TaskCreate.title td \<noteq> [] \<and> strip (TaskCreate.title td) \<noteq> []"
    by (auto simp add: blank_def strip_def)
  with assms(2) show ?thesis
    by (simp add: create_task_def db_add_def Let_def)
qed

lemma post_tasks_example:
  "post_tasks example_env example_body init_db = Inr (example_task, example_store)"
  by (simp add: post_tasks_def parse_TaskCreate_def create_task_def db_add_def not_null_def Let_def
        example_body_def example_env_def init_db_def example_task_def example_store_def
        strip_def isspace_def)

lemma not_blank_replicate_a: "0 < n \<Longrightarrow> \<not> blank (replicate n (CHR ''a''))"
  by (simp add: blank_def strip_empty isspace_def)

text \<open>
  Claim C3. A create fails with status 422 when the title is absent (or null), and when
  it is empty or white space only. A title longer than 200 characters, so one of 201,
  fails with status 422. A title of at most 200 characters, so one of exactly 200, that
  is not blank creates the task, given that the other fields are valid, the store can be
  reached and the generated id is not yet in use.
\<close>

theorem create_task_title_validation:
  "(RequestBody.title body = Unset \<or> RequestBody.title body = Given None
      \<longrightarrow> (\<exists>err. post_tasks e body db = Inl err \<and> status_code err = 422))
 \<and> (RequestBody.title body = Given (Some s) \<and> blank s
      \<longrightarrow> (\<exists>err. post_tasks e body db = Inl err \<and> status_code err = 422))
 \<and> (RequestBody.title body = Given (Some s) \<and> 200 < length s
      \<longrightarrow> (\<exists>err. post_tasks e body db = Inl err \<and> status_code err = 422))
 \<and> (RequestBody.title body = Given (Some s) \<and> length s \<le> 200 \<and> \<not> blank s
       \<and> other_fields_valid body \<and> fault db = None \<and> uuid4 e \<notin> id' ` set (rows db)
      \<longrightarrow> (\<exists>task db'. post_tasks e body db = Inr (task, db') \<and> TaskModel.title task = Some s))"
proof (intro conjI impI)
  assume "RequestBody.title body = Unset \<or> RequestBody.title body = Given None"
  then have "required_str 1 200 (RequestBody.title body) = None" by auto
  then have "post_tasks e body db = Inl RequestValidationError"
    by (simp add: post_tasks_def parse_TaskCreate_title_None)
  then show "\<exists>err. post_tasks e body db = Inl err \<and> status_code err = 422" by simp
next
  assume a: "RequestBody.title body = Given (Some s) \<and> blank s"
  show "\<exists>err. post_tasks e body db = Inl err \<and> status_code err = 422"
  proof (cases "parse_TaskCreate body")
    case None
    then show ?thesis by (simp add: post_tasks_def)
  next
    case (Some td)
    from parse_TaskCreate_Some [OF Some] a have "TaskCreate.title td = s"
      by (auto split: if_splits)
    with a have "create_task e td db = Inl (HTTPException 422 ''Title cannot be empty'')"
      by (simp add: create_task_blank)
    with Some show ?thesis by (simp add: post_tasks_def)
  qed
next
  assume "RequestBody.title body = Given (Some s) \<and> 200 < length s"
  then have "required_str 1 200 (RequestBody.title body) = None" by auto
  then have "post_tasks e body db = Inl RequestValidationError"
    by (simp add: post_tasks_def parse_TaskCreate_title_None)
  then show "\<exists>err. post_tasks e body db = Inl err \<and> status_code err = 422" by simp
next
  assume a: "RequestBody.title body = Given (Some s) \<and> length s \<le> 200 \<and> \<not> blank s
       \<and> other_fields_valid body \<and> fault db = None \<and> uuid4 e \<notin> id' ` set (rows db)"
  then have "s \<noteq> []" by (auto simp add: blank_def strip_def)
  with a have "required_str 1 200 (RequestBody.title body) = Some s"
    by (cases s) auto
  with a obtain td where td: "parse_TaskCreate body = Some td" "TaskCreate.title td = s"
    using parse_TaskCreate_valid by blast
  with a have "\<exists>task db'. create_task e td db = Inr (task, db') \<and> TaskModel.title task = Some s"
    using create_task_succeeds [of td db e] by simp
  with td show "\<exists>task db'. post_tasks e body db = Inr (task, db') \<and> TaskModel.title task = Some s"
    by (simp add: post_tasks_def)
qed

theorem create_task_title_validation_witness:
  "(\<exists>err. post_tasks example_env empty_body init_db = Inl err \<and> status_code err = 422)
 \<and> (\<exists>err. post_tasks example_env (empty_body\<lparr>RequestBody.title := Given (Some '''')\<rparr>) init_db = Inl err
        \<and> status_code err = 422)
 \<and> (\<exists>err. post_tasks example_env (empty_body\<lparr>RequestBody.title := Given (Some ''   '')\<rparr>) init_db = Inl err
        \<and> status_code err = 422)
 \<and> (\<exists>err. post_tasks example_env
              (empty_body\<lparr>RequestBody.title := Given (Some (replicate 201 (CHR ''a'')))\<rparr>) init_db = Inl err
        \<and> status_code err = 422)
 \<and> (\<exists>task db'. post_tasks example_env
              (empty_body\<lparr>RequestBody.title := Given (Some (replicate 200 (CHR ''a'')))\<rparr>) init_db
            = Inr (task, db')
        \<and> TaskModel.title task = Some (replicate 200 (CHR ''a'')))"
proof -
  have 1: "\<exists>err. post_tasks example_env empty_body init_db = Inl err \<and> status_code err = 422"
    using create_task_title_validation [where body = empty_body and e = example_env and db = init_db]
    by (simp add: empty_body_def)
  have b0: "blank ''''" and b3: "blank ''   ''"
    by (simp_all add: blank_def strip_def isspace_def)
  have 2: "\<exists>err. post_tasks example_env (empty_body\<lparr>RequestBody.title := Given (Some '''')\<rparr>) init_db = Inl err
        \<and> status_code err = 422"
    using create_task_title_validation
      [where body = "empty_body\<lparr>RequestBody.title := Given (Some '''')\<rparr>" and s = "''''"
         and e = example_env and db = init_db] b0
    by simp
  have 3: "\<exists>err. post_tasks example_env (empty_body\<lparr>RequestBody.title := Given (Some ''   '')\<rparr>) init_db = Inl err
        \<and> status_code err = 422"
    using create_task_title_validation
      [where body = "empty_body\<lparr>RequestBody.title := Given (Some ''   '')\<rparr>" and s = "''   ''"
         and e = example_env and db = init_db] b3
    by simp
  have 4: "\<exists>err. post_tasks example_env
              (empty_body\<lparr>RequestBody.title := Given (Some (replicate 201 (CHR ''a'')))\<rparr>) init_db = Inl err
        \<and> status_code err = 422"
    using create_task_title_validation
      [where body = "empty_body\<lparr>RequestBody.title := Given (Some (replicate 201 (CHR ''a'')))\<rparr>"
         and s = "replicate 201 (CHR ''a'')" and e = example_env and db = init_db]
    by simp
  have v: "other_fields_valid (empty_body\<lparr>RequestBody.title := Given (Some (replicate 200 (CHR ''a'')))\<rparr>)"
    by (simp add: other_fields_valid_def empty_body_def)
  have nb: "\<not> blank (replicate 200 (CHR ''a''))" by (rule not_blank_replicate_a) simp
  have fr: "fault init_db = None \<and> uuid4 example_env \<notin> id' ` set (rows init_db)"
    by (simp add: init_db_def)
  have 5: "\<exists>task db'. post_tasks example_env
              (empty_body\<lparr>RequestBody.title := Given (Some (replicate 200 (CHR ''a'')))\<rparr>) init_db
            = Inr (task, db')
        \<and> TaskModel.title task = Some (replicate 200 (CHR ''a''))"
    using create_task_title_validation
      [where body = "empty_body\<lparr>RequestBody.title := Given (Some (replicate 200 (CHR ''a'')))\<rparr>"
         and s = "replicate 200 (CHR ''a'')" and e = example_env and db = init_db] v nb fr
    by simp
  from 1 2 3 4 5 show ?thesis by blast
qed




subsection \<open>Update\<close>

lemma update_task_missing:
  "fault db = None \<Longrightarrow> tid \<notin> id' ` set (rows db) \<Longrightarrow>
   update_task e tid updates db = Inl (HTTPException 404 (''Task '' @ tid @ '' not found''))"
  using find_id_None [of tid "rows db"] by (simp add: update_task_def db_query_first_id)

lemma find_id_map:
  "id' new = tid \<Longrightarrow>
   find (\<lambda>r. id' r = tid) (map (\<lambda>r. if id' r = tid then new else r) xs) =
     (if tid \<in> id' ` set xs then Some new else None)"
  by (induction xs) auto

lemma parse_TaskUpdate_Some:
  assumes "parse_TaskUpdate body = Some u"
  shows "optional_str 1 200 (RequestBody.title body) = Some (TaskUpdate.title u)
       \<and> optional_str 0 1000 (RequestBody.description body) = Some (TaskUpdate.description u)
       \<and> optional_enum TaskStatus_of_value (RequestBody.status body) = Some (TaskUpdate.status u)
       \<and> optional_enum TaskPriority_of_value (RequestBody.priority body) = Some (TaskUpdate.priority u)
       \<and> optional_str 0 100 (RequestBody.assignee body) = Some (TaskUpdate.assignee u)
       \<and> TaskUpdate.due_date u = RequestBody.due_date body"
  using assms by (auto simp add: parse_TaskUpdate_def bind_eq_Some_conv)

lemma optional_str_Unset: "optional_str lo hi Unset = Some f \<Longrightarrow> f = Unset"
  by simp

lemma optional_enum_Unset: "optional_enum v Unset = Some f \<Longrightarrow> f = Unset"
  by simp

lemma update_task_Inr:
  assumes "update_task e tid u db = Inr (new, db')"
  shows "\<exists>old. fault db = None \<and> find (\<lambda>r. id' r = tid) (rows db) = Some old
       \<and> new = old\<lparr>TaskModel.title := dict_get_default (TaskUpdate.title u) (TaskModel.title old),
                  TaskModel.description := dict_get_default (TaskUpdate.description u) (TaskModel.description old),
                  TaskModel.status := dict_get_default (TaskUpdate.status u) (TaskModel.status old),
                  TaskModel.priority := dict_get_default (TaskUpdate.priority u) (TaskModel.priority old),
                  TaskModel.assignee := dict_get_default (TaskUpdate.assignee u) (TaskModel.assignee old),
                  TaskModel.due_date := dict_get_default (TaskUpdate.due_date u) (TaskModel.due_date old),
                  updated_at := utcnow e\<rparr>
       \<and> not_null new \<and> dict_get (TaskUpdate.title u) \<noteq> Some []
       \<and> db' = db\<lparr>rows := map (\<lambda>r. if id' r = tid then new else r) (rows db)\<rparr>"
proof (cases "fault db")
  case (Some msg)
  with assms show ?thesis by (simp add: update_task_def db_query_first_def db_query_all_def)
next
  case None
  show ?thesis
  proof (cases "find (\<lambda>r. id' r = tid) (rows db)")
    case N: None
    with None assms show ?thesis by (simp add: update_task_def db_query_first_id)
  next
    case (Some old)
    then have "id' old = tid" using find_id_Some by blast
    with None Some assms show ?thesis
      by (auto simp add: update_task_def db_query_first_id db_update_def Let_def split: if_splits)
  qed
qed

lemma put_tasks_empty_title:
  "RequestBody.title body = Given (Some '''') \<Longrightarrow> put_tasks e tid body db = Inl RequestValidationError"
  by (simp add: put_tasks_def parse_TaskUpdate_def)

text \<open>
  Claim C2, as the code has it. A request whose body does not fit the \<^verbatim>\<open>TaskUpdate\<close> model,
  as one with a status or a priority outside its enumeration, fails with status 422
  whether or not the id exists and whatever the state of the store: the body is
  validated before the handler looks the id up. On a reachable store without the id,
  the handler fails with status 404 whatever the validated update holds, so before its
  own test of the title, and a request whose body fits the model fails with status 404.
\<close>

theorem update_task_not_found:
  "(parse_TaskUpdate body = None \<longrightarrow> put_tasks e tid body db = Inl RequestValidationError)
   \<and> (RequestBody.status body = Given (Some v) \<and> TaskStatus_of_value v = None
        \<longrightarrow> put_tasks e tid body db = Inl RequestValidationError)
   \<and> (RequestBody.priority body = Given (Some v) \<and> TaskPriority_of_value v = None
        \<longrightarrow> put_tasks e tid body db = Inl RequestValidationError)
   \<and> (fault db = None \<and> tid \<notin> id' ` set (rows db) \<longrightarrow>
        update_task e tid updates db = Inl (HTTPException 404 (''Task '' @ tid @ '' not found''))
        \<and> (parse_TaskUpdate body \<noteq> None \<longrightarrow>
             put_tasks e tid body db = Inl (HTTPException 404 (''Task '' @ tid @ '' not found''))))"
proof (intro conjI impI)
  assume "parse_TaskUpdate body = None"
  then show "put_tasks e tid body db = Inl RequestValidationError" by (simp add: put_tasks_def)
next
  assume "RequestBody.status body = Given (Some v) \<and> TaskStatus_of_value v = None"
  then have "parse_TaskUpdate body = None"
    by (simp add: parse_TaskUpdate_def bind_eq_None_conv)
  then show "put_tasks e tid body db = Inl RequestValidationError" by (simp add: put_tasks_def)
next
  assume "RequestBody.priority body = Given (Some v) \<and> TaskPriority_of_value v = None"
  then have "parse_TaskUpdate body = None"
    by (simp add: parse_TaskUpdate_def bind_eq_None_conv)
  then show "put_tasks e tid body db = Inl RequestValidationError" by (simp add: put_tasks_def)
next
  assume "fault db = None \<and> tid \<notin> id' ` set (rows db)"
  then show "update_task e tid updates db = Inl (HTTPException 404 (''Task '' @ tid @ '' not found''))"
    by (simp add: update_task_missing)
next
  assume "fault db = None \<and> tid \<notin> id' ` set (rows db)" and "parse_TaskUpdate body \<noteq> None"
  then show "put_tasks e tid body db = Inl (HTTPException 404 (''Task '' @ tid @ '' not found''))"
    by (auto simp add: put_tasks_def update_task_missing)
qed

theorem update_task_not_found_witness:
  "fault example_store = None
   \<and> ''u2'' \<notin> id' ` set (rows example_store)
   \<and> ''u1'' \<in> id' ` set (rows example_store)
   \<and> update_task example_env ''u2''
        \<lparr>TaskUpdate.title = Given (Some ''''), description = Unset, status = Unset, priority = Unset,
         assignee = Unset, due_date = Unset\<rparr> example_store
       = Inl (HTTPException 404 ''Task u2 not found'')
   \<and> put_tasks example_env ''u2'' (empty_body\<lparr>RequestBody.status := Given (Some ''done'')\<rparr>) example_store
       = Inl (HTTPException 404 ''Task u2 not found'')
   \<and> put_tasks example_env ''u2'' (empty_body\<lparr>RequestBody.status := Given (Some ''finished'')\<rparr>) example_store
       = Inl RequestValidationError
   \<and> put_tasks example_env ''u1'' (empty_body\<lparr>RequestBody.status := Given (Some ''finished'')\<rparr>) example_store
       = Inl RequestValidationError
   \<and> put_tasks example_env ''u1'' (empty_body\<lparr>RequestBody.priority := Given (Some ''urgent'')\<rparr>) example_store
       = Inl RequestValidationError
   \<and> put_tasks example_env ''u1'' (empty_body\<lparr>RequestBody.title := Given (Some '''')\<rparr>) example_store
       = Inl RequestValidationError"
proof -
  have up: "fault example_store = None \<and> ''u2'' \<notin> id' ` set (rows example_store)"
    by (simp add: example_store_def example_task_def)
  have ex: "''u1'' \<in> id' ` set (rows example_store)"
    by (simp add: example_store_def example_task_def)
  have ok: "parse_TaskUpdate (empty_body\<lparr>RequestBody.status := Given (Some ''done'')\<rparr>) \<noteq> None"
    by (simp add: parse_TaskUpdate_def empty_body_def TaskStatus_of_value_def)
  have bad: "RequestBody.status (empty_body\<lparr>RequestBody.status := Given (Some ''finished'')\<rparr>)
               = Given (Some ''finished'') \<and> TaskStatus_of_value ''finished'' = None"
    by (simp add: TaskStatus_of_value_def)
  have urgent: "RequestBody.priority (empty_body\<lparr>RequestBody.priority := Given (Some ''urgent'')\<rparr>)
               = Given (Some ''urgent'') \<and> TaskPriority_of_value ''urgent'' = None"
    by (simp add: TaskPriority_of_value_def)
  have empty: "parse_TaskUpdate (empty_body\<lparr>RequestBody.title := Given (Some '''')\<rparr>) = None"
    by (simp add: parse_TaskUpdate_def empty_body_def)
  have 1: "update_task example_env ''u2''
        \<lparr>TaskUpdate.title = Given (Some ''''), description = Unset, status = Unset, priority = Unset,
         assignee = Unset, due_date = Unset\<rparr> example_store
       = Inl (HTTPException 404 ''Task u2 not found'')"
    using update_task_not_found [where db = example_store and tid = "''u2''" and e = example_env] up
    by simp
  have 2: "put_tasks example_env ''u2'' (empty_body\<lparr>RequestBody.status := Given (Some ''done'')\<rparr>) example_store
       = Inl (HTTPException 404 ''Task u2 not found'')"
    using update_task_not_found [where db = example_store and tid = "''u2''" and e = example_env
        and body = "empty_body\<lparr>RequestBody.status := Given (Some ''done'')\<rparr>"] up ok
    by simp
  have 3: "put_tasks example_env ''u2'' (empty_body\<lparr>RequestBody.status := Given (Some ''finished'')\<rparr>)
             example_store = Inl RequestValidationError"
    using update_task_not_found [where db = example_store and tid = "''u2''" and e = example_env
        and body = "empty_body\<lparr>RequestBody.status := Given (Some ''finished'')\<rparr>" and v = "''finished''"]
      bad by blast
  have 4: "put_tasks example_env ''u1'' (empty_body\<lparr>RequestBody.status := Given (Some ''finished'')\<rparr>)
             example_store = Inl RequestValidationError"
    using update_task_not_found [where db = example_store and tid = "''u1''" and e = example_env
        and body = "empty_body\<lparr>RequestBody.status := Given (Some ''finished'')\<rparr>" and v = "''finished''"]
      bad by blast
  have 5: "put_tasks example_env ''u1'' (empty_body\<lparr>RequestBody.priority := Given (Some ''urgent'')\<rparr>)
             example_store = Inl RequestValidationError"
    using update_task_not_found [where db = example_store and tid = "''u1''" and e = example_env
        and body = "empty_body\<lparr>RequestBody.priority := Given (Some ''urgent'')\<rparr>" and v = "''urgent''"]
      urgent by blast
  have 6: "put_tasks example_env ''u1'' (empty_body\<lparr>RequestBody.title := Given (Some '''')\<rparr>)
             example_store = Inl RequestValidationError"
    using update_task_not_found [where db = example_store and tid = "''u1''" and e = example_env
        and body = "empty_body\<lparr>RequestBody.title := Given (Some '''')\<rparr>"]
      empty by blast
  from up ex 1 2 3 4 5 6 show ?thesis by blast
qed

text \<open>
  Claim C2, as the specification words it, fails: an update of an id that does not exist
  whose body names a priority outside the enumeration ends with the validation error of
  status 422, not with status 404.
\<close>

theorem update_task_not_found_counterexample:
  "fault example_store = None
   \<and> ''u2'' \<notin> id' ` set (rows example_store)
   \<and> put_tasks example_env ''u2'' (empty_body\<lparr>RequestBody.priority := Given (Some ''urgent'')\<rparr>) example_store
       = Inl RequestValidationError
   \<and> status_code RequestValidationError = 422"
  by (simp add: put_tasks_def parse_TaskUpdate_def empty_body_def TaskPriority_of_value_def
        example_store_def example_task_def)

text \<open>
  Claim C5, as the code has it. After a successful update the record keeps its id and
  creation time and the value of every field the body does not hold; its update time is
  the reading of the clock, whatever the body holds, so it has grown exactly when that
  reading is later than the update time stored before; and a get of the id returns the
  record.
\<close>

theorem update_task_frame:
  assumes g: "get_task tid db = Inr old" and p: "put_tasks e tid body db = Inr (new, db')"
  shows "id' new = id' old \<and> created_at new = created_at old
       \<and> (RequestBody.title body = Unset \<longrightarrow> TaskModel.title new = TaskModel.title old)
       \<and> (RequestBody.description body = Unset \<longrightarrow> TaskModel.description new = TaskModel.description old)
       \<and> (RequestBody.status body = Unset \<longrightarrow> TaskModel.status new = TaskModel.status old)
       \<and> (RequestBody.priority body = Unset \<longrightarrow> TaskModel.priority new = TaskModel.priority old)
       \<and> (RequestBody.assignee body = Unset \<longrightarrow> TaskModel.assignee new = TaskModel.assignee old)
       \<and> (RequestBody.due_date body = Unset \<longrightarrow> TaskModel.due_date new = TaskModel.due_date old)
       \<and> updated_at new = utcnow e
       \<and> (updated_at old < updated_at new \<longleftrightarrow> updated_at old < utcnow e)
       \<and> get_task tid db' = Inr new"
proof -
  from p obtain u where u: "parse_TaskUpdate body = Some u"
    and h: "update_task e tid u db = Inr (new, db')"
    by (auto simp add: put_tasks_def split: option.splits)
  from g have f: "fault db = None" and o: "find (\<lambda>r. id' r = tid) (rows db) = Some old"
    by (simp_all add: get_task_Inr)
  from update_task_Inr [OF h] o have
    new: "new = old\<lparr>TaskModel.title := dict_get_default (TaskUpdate.title u) (TaskModel.title old),
                  TaskModel.description := dict_get_default (TaskUpdate.description u) (TaskModel.description old),
                  TaskModel.status := dict_get_default (TaskUpdate.status u) (TaskModel.status old),
                  TaskModel.priority := dict_get_default (TaskUpdate.priority u) (TaskModel.priority old),
                  TaskModel.assignee := dict_get_default (TaskUpdate.assignee u) (TaskModel.assignee old),
                  TaskModel.due_date := dict_get_default (TaskUpdate.due_date u) (TaskModel.due_date old),
                  updated_at := utcnow e\<rparr>"
    and db': "db' = db\<lparr>rows := map (\<lambda>r. if id' r = tid then new else r) (rows db)\<rparr>"
    by auto
  note pu = parse_TaskUpdate_Some [OF u]
  have t: "RequestBody.title body = Unset \<longrightarrow> TaskUpdate.title u = Unset"
    using pu by (auto dest: optional_str_Unset)
  have d: "RequestBody.description body = Unset \<longrightarrow> TaskUpdate.description u = Unset"
    using pu by (auto dest: optional_str_Unset)
  have s: "RequestBody.status body = Unset \<longrightarrow> TaskUpdate.status u = Unset"
    using pu by (auto dest: optional_enum_Unset)
  have pr: "RequestBody.priority body = Unset \<longrightarrow> TaskUpdate.priority u = Unset"
    using pu by (auto dest: optional_enum_Unset)
  have a: "RequestBody.assignee body = Unset \<longrightarrow> TaskUpdate.assignee u = Unset"
    using pu by (auto dest: optional_str_Unset)
  have dd: "RequestBody.due_date body = Unset \<longrightarrow> TaskUpdate.due_date u = Unset"
    using pu by simp
  have idn: "id' new = tid" using new find_id_Some [OF o] by simp
  have ex: "tid \<in> id' ` set (rows db)" using find_id_Some [OF o] by auto
  have "find (\<lambda>r. id' r = tid) (rows db') = Some new"
    using find_id_map [OF idn, of "rows db"] ex db' by simp
  moreover have "fault db' = None" using db' f by simp
  ultimately have g': "get_task tid db' = Inr new" by (simp add: get_task_Inr)
  have frame: "id' new = id' old" "created_at new = created_at old" "updated_at new = utcnow e"
    using new by simp_all
  have 1: "RequestBody.title body = Unset \<longrightarrow> TaskModel.title new = TaskModel.title old"
    using t new by simp
  have 2: "RequestBody.description body = Unset \<longrightarrow> TaskModel.description new = TaskModel.description old"
    using d new by simp
  have 3: "RequestBody.status body = Unset \<longrightarrow> TaskModel.status new = TaskModel.status old"
    using s new by simp
  have 4: "RequestBody.priority body = Unset \<longrightarrow> TaskModel.priority new = TaskModel.priority old"
    using pr new by simp
  have 5: "RequestBody.assignee body = Unset \<longrightarrow> TaskModel.assignee new = TaskModel.assignee old"
    using a new by simp
  have 6: "RequestBody.due_date body = Unset \<longrightarrow> TaskModel.due_date new = TaskModel.due_date old"
    using dd new by simp
  from frame 1 2 3 4 5 6 g' show ?thesis by simp
qed

theorem update_task_frame_witness:
  "get_task ''u1'' example_store = Inr example_task
   \<and> put_tasks later_env ''u1'' status_done_body example_store
       = Inr (done_task, \<lparr>rows = [done_task], fault = None\<rparr>)
   \<and> id' done_task = id' example_task
   \<and> created_at done_task = created_at example_task
   \<and> TaskModel.title done_task = TaskModel.title example_task
   \<and> TaskModel.description done_task = TaskModel.description example_task
   \<and> TaskModel.priority done_task = TaskModel.priority example_task
   \<and> TaskModel.assignee done_task = TaskModel.assignee example_task
   \<and> TaskModel.due_date done_task = TaskModel.due_date example_task
   \<and> updated_at done_task = utcnow later_env
   \<and> updated_at example_task < updated_at done_task
   \<and> get_task ''u1'' \<lparr>rows = [done_task], fault = None\<rparr> = Inr done_task"
proof -
  have g: "get_task ''u1'' example_store = Inr example_task"
    by (simp add: get_task_def db_query_first_def db_query_all_def example_store_def example_task_def)
  have p: "put_tasks later_env ''u1'' status_done_body example_store
             = Inr (done_task, \<lparr>rows = [done_task], fault = None\<rparr>)"
    by (simp add: put_tasks_def parse_TaskUpdate_def update_task_def db_query_first_def
        db_query_all_def db_update_def not_null_def Let_def TaskStatus_of_value_def
        status_done_body_def empty_body_def later_env_def done_task_def
        example_store_def example_task_def)
  have u: "RequestBody.title status_done_body = Unset"
      "RequestBody.description status_done_body = Unset"
      "RequestBody.priority status_done_body = Unset"
      "RequestBody.assignee status_done_body = Unset"
      "RequestBody.due_date status_done_body = Unset"
    by (simp_all add: status_done_body_def empty_body_def)
  have lt: "updated_at example_task < utcnow later_env"
    by (simp add: example_task_def later_env_def)
  from update_task_frame [OF g p] u lt
  have "id' done_task = id' example_task
   \<and> created_at done_task = created_at example_task
   \<and> TaskModel.title done_task = TaskModel.title example_task
   \<and> TaskModel.description done_task = TaskModel.description example_task
   \<and> TaskModel.priority done_task = TaskModel.priority example_task
   \<and> TaskModel.assignee done_task = TaskModel.assignee example_task
   \<and> TaskModel.due_date done_task = TaskModel.due_date example_task
   \<and> updated_at done_task = utcnow later_env
   \<and> updated_at example_task < updated_at done_task
   \<and> get_task ''u1'' \<lparr>rows = [done_task], fault = None\<rparr> = Inr done_task"
    by blast
  with g p show ?thesis by blast
qed

text \<open>
  Claim C5, as the specification words it, fails: the store that holds the one task
  created at clock reading 10 is reachable, and an update that reads the clock at 10
  again succeeds and returns the record with the update time it had, which has not
  grown.
\<close>

theorem update_task_frame_counterexample:
  "reachable example_store (utcnow example_env)
   \<and> get_task ''u1'' example_store = Inr example_task
   \<and> put_tasks example_env ''u1'' empty_body example_store = Inr (example_task, example_store)
   \<and> \<not> updated_at example_task < updated_at example_task"
proof -
  have "reachable init_db (utcnow example_env)" by (rule reachable.startup)
  then have "reachable example_store (utcnow example_env)"
    by (rule reachable.created [OF _ _ post_tasks_example]) simp
  moreover have "get_task ''u1'' example_store = Inr example_task"
    by (simp add: get_task_def db_query_first_def db_query_all_def example_store_def example_task_def)
  moreover have "put_tasks example_env ''u1'' empty_body example_store = Inr (example_task, example_store)"
    by (simp add: put_tasks_def parse_TaskUpdate_def update_task_def db_query_first_def
        db_query_all_def db_update_def not_null_def Let_def empty_body_def example_env_def
        example_store_def example_task_def)
  ultimately show ?thesis by simp
qed

lemma put_tasks_blank_example:
  "put_tasks later_env ''u1'' blank_title_body example_store
     = Inr (blank_task, \<lparr>rows = [blank_task], fault = None\<rparr>)"
  by (simp add: put_tasks_def parse_TaskUpdate_def update_task_def db_query_first_def
        db_query_all_def db_update_def not_null_def Let_def blank_title_body_def empty_body_def
        later_env_def blank_task_def example_store_def example_task_def)

lemma blank_three_spaces: "blank ''   ''"
  by (simp add: blank_def strip_def isspace_def)

text \<open>
  Claim C1 fails on the code. The stored task with id u1 has the title Buy groceries; an
  update whose body holds the title of three spaces, which is blank, succeeds and stores
  the three spaces as the title.
\<close>

theorem update_task_accepts_blank_title:
  "get_task ''u1'' example_store = Inr example_task
   \<and> RequestBody.title blank_title_body = Given (Some ''   '')
   \<and> blank ''   ''
   \<and> put_tasks later_env ''u1'' blank_title_body example_store
       = Inr (blank_task, \<lparr>rows = [blank_task], fault = None\<rparr>)
   \<and> TaskModel.title blank_task = Some ''   ''"
proof -
  have "get_task ''u1'' example_store = Inr example_task"
    by (simp add: get_task_def db_query_first_def db_query_all_def example_store_def example_task_def)
  moreover have "RequestBody.title blank_title_body = Given (Some ''   '')"
    by (simp add: blank_title_body_def)
  moreover have "TaskModel.title blank_task = Some ''   ''"
    by (simp add: blank_task_def)
  ultimately show ?thesis using put_tasks_blank_example blank_three_spaces by simp
qed

subsection \<open>Invariants of the store\<close>

lemma task_invariant_mono: "task_invariant c r \<Longrightarrow> c \<le> c' \<Longrightarrow> task_invariant c' r"
  by (simp add: task_invariant_def)

lemma store_invariant_create:
  assumes inv: "store_invariant db clock" and le: "clock \<le> utcnow e"
    and p: "post_tasks e body db = Inr (task, db')"
  shows "store_invariant db' (utcnow e)"
proof -
  from p obtain td where c: "create_task e td db = Inr (task, db')"
    by (auto simp add: post_tasks_def split: option.splits)
  note t = create_task_Inr [OF c]
  from t have "TaskCreate.title td \<noteq> []" by (auto simp add: blank_def strip_def)
  with t have "task_invariant (utcnow e) task" by (simp add: task_invariant_def not_null_def)
  moreover have "\<forall>r \<in> set (rows db). task_invariant (utcnow e) r"
    using inv le by (auto simp add: store_invariant_def list_all_iff intro: task_invariant_mono)
  ultimately show ?thesis using t by (simp add: store_invariant_def list_all_iff)
qed

lemma map_id_replace:
  "id' new = tid \<Longrightarrow> map (id' \<circ> (\<lambda>r. if id' r = tid then new else r)) xs = map id' xs"
  by (induction xs) auto

lemma store_invariant_update:
  assumes inv: "store_invariant db clock" and le: "clock \<le> utcnow e"
    and p: "put_tasks e tid body db = Inr (new, db')"
  shows "store_invariant db' (utcnow e)"
proof -
  from p obtain u where u: "parse_TaskUpdate body = Some u"
    and h: "update_task e tid u db = Inr (new, db')"
    by (auto simp add: put_tasks_def split: option.splits)
  from update_task_Inr [OF h] obtain old where
    o: "find (\<lambda>r. id' r = tid) (rows db) = Some old"
    and new: "new = old\<lparr>TaskModel.title := dict_get_default (TaskUpdate.title u) (TaskModel.title old),
                  TaskModel.description := dict_get_default (TaskUpdate.description u) (TaskModel.description old),
                  TaskModel.status := dict_get_default (TaskUpdate.status u) (TaskModel.status old),
                  TaskModel.priority := dict_get_default (TaskUpdate.priority u) (TaskModel.priority old),
                  TaskModel.assignee := dict_get_default (TaskUpdate.assignee u) (TaskModel.assignee old),
                  TaskModel.due_date := dict_get_default (TaskUpdate.due_date u) (TaskModel.due_date old),
                  updated_at := utcnow e\<rparr>"
    and nn: "not_null new" and ne: "dict_get (TaskUpdate.title u) \<noteq> Some []"
    and db': "db' = db\<lparr>rows := map (\<lambda>r. if id' r = tid then new else r) (rows db)\<rparr>"
    by blast
  from find_id_Some [OF o] have old: "id' old = tid" "old \<in> set (rows db)" by simp_all
  with inv have io: "task_invariant clock old" by (simp add: store_invariant_def list_all_iff)
  have idn: "id' new = tid" using new old by simp
  have "TaskModel.title new \<noteq> Some []"
    using new ne io by (cases "TaskUpdate.title u") (simp_all add: task_invariant_def)
  moreover have "created_at new \<le> updated_at new"
    using new io le by (simp add: task_invariant_def)
  moreover have "updated_at new = utcnow e" using new by simp
  ultimately have tn: "task_invariant (utcnow e) new" using nn by (simp add: task_invariant_def)
  have "\<forall>r \<in> set (rows db). task_invariant (utcnow e) r"
    using inv le by (auto simp add: store_invariant_def list_all_iff intro: task_invariant_mono)
  with tn have "\<forall>r \<in> set (rows db'). task_invariant (utcnow e) r" using db' by auto
  then show ?thesis by (simp add: store_invariant_def list_all_iff)
qed

lemma delete_task_Inr:
  assumes "delete_task tid db = Inr (u, db')"
  shows "db' = db\<lparr>rows := filter (\<lambda>r. id' r \<noteq> tid) (rows db)\<rparr>"
proof (cases "fault db")
  case (Some msg)
  with assms show ?thesis by (simp add: delete_task_def db_query_first_def db_query_all_def)
next
  case None
  show ?thesis
  proof (cases "tid \<in> id' ` set (rows db)")
    case True
    with None assms show ?thesis by (simp add: delete_task_existing)
  next
    case False
    with None assms show ?thesis by (simp add: delete_task_missing)
  qed
qed

lemma store_invariant_delete:
  assumes inv: "store_invariant db clock" and d: "delete_task tid db = Inr (u, db')"
  shows "store_invariant db' clock"
  using inv delete_task_Inr [OF d] by (simp add: store_invariant_def list_all_iff)

text \<open>
  The ids of the stored tasks stay distinct: an update and a delete keep them so, and a
  create keeps them so when the generator returns an id that no stored task has.
\<close>

lemma distinct_ids_create:
  assumes "distinct (map id' (rows db))" and "uuid4 e \<notin> id' ` set (rows db)"
    and p: "post_tasks e body db = Inr (task, db')"
  shows "distinct (map id' (rows db'))"
proof -
  from p obtain td where c: "create_task e td db = Inr (task, db')"
    by (auto simp add: post_tasks_def split: option.splits)
  from create_task_Inr [OF c] assms(1,2) show ?thesis by simp
qed

lemma distinct_ids_update:
  assumes "distinct (map id' (rows db))" and p: "put_tasks e tid body db = Inr (new, db')"
  shows "distinct (map id' (rows db'))"
proof -
  from p obtain u where h: "update_task e tid u db = Inr (new, db')"
    by (auto simp add: put_tasks_def split: option.splits)
  from update_task_Inr [OF h] obtain old where
    o: "find (\<lambda>r. id' r = tid) (rows db) = Some old"
    and new: "id' new = id' old"
    and db': "db' = db\<lparr>rows := map (\<lambda>r. if id' r = tid then new else r) (rows db)\<rparr>"
    by auto
  from find_id_Some [OF o] new have idn: "id' new = tid" by simp
  with assms(1) db' show ?thesis by (simp add: map_id_replace [OF idn])
qed

lemma distinct_ids_delete:
  assumes "distinct (map id' (rows db))" and d: "delete_task tid db = Inr (u, db')"
  shows "distinct (map id' (rows db'))"
  using assms(1) delete_task_Inr [OF d] by (simp add: distinct_map_filter)

text \<open>
  The part of the invariants of section 3 of the specification that every reachable
  store keeps: every task has a title, a status and a priority of its enumeration, the
  title is not the empty string, and no task was updated before it was created.
\<close>

lemma reachable_store_invariant: "reachable db clock \<Longrightarrow> store_invariant db clock"
proof (induction rule: reachable.induct)
  case (startup clock)
  show ?case by (simp add: store_invariant_def init_db_def)
next
  case (created db clock e body task db')
  then show ?case by (auto intro: store_invariant_create)
next
  case (updated db clock e task_id body task db')
  then show ?case by (auto intro: store_invariant_update)
next
  case (deleted db clock task_id u db')
  then show ?case by (auto intro: store_invariant_delete)
next
  case (outage db clock f)
  then show ?case by (simp add: store_invariant_def)
qed

text \<open>
  Claim C6 fails on the code. From the store of a fresh deployment, creating the task
  Buy groceries at clock reading 10 and then updating its title to three spaces at clock
  reading 20 are both successful requests; the store they leave holds a task whose title
  is blank.
\<close>

theorem reachable_blank_title:
  "reachable \<lparr>rows = [blank_task], fault = None\<rparr> 20
   \<and> TaskModel.title blank_task = Some ''   ''
   \<and> blank ''   ''"
proof -
  have "reachable init_db 10" by (rule reachable.startup)
  then have "reachable example_store (utcnow example_env)"
    by (rule reachable.created [OF _ _ post_tasks_example]) (simp add: example_env_def)
  then have "reachable \<lparr>rows = [blank_task], fault = None\<rparr> (utcnow later_env)"
    by (rule reachable.updated [OF _ _ put_tasks_blank_example])
       (simp add: example_env_def later_env_def)
  moreover have "TaskModel.title blank_task = Some ''   ''" by (simp add: blank_task_def)
  ultimately show ?thesis using blank_three_spaces by (simp add: later_env_def)
qed

end
